theory Spec2Isabelle
  imports Complex_Main
begin

section \<open>Strings of the page agent\<close>

text \<open>
  A JavaScript string is a sequence of UTF-16 code units and \<open>.length\<close> counts code
  units, so a string is a list of naturals below 65536.  ASCII literals are written
  through \<open>js\<close>; the Chinese literals of the source are written as code-unit lists.
\<close>

type_synonym jsstring = "nat list"

definition js :: "string \<Rightarrow> jsstring" where
  "js s = map of_char s"

text \<open>\<open>String.prototype.trim\<close>: white space and line terminators of ECMAScript.\<close>

definition is_js_space :: "nat \<Rightarrow> bool" where
  "is_js_space c =
     (c = 9 \<or> c = 10 \<or> c = 11 \<or> c = 12 \<or> c = 13 \<or> c = 32 \<or> c = 160 \<or> c = 5760 \<or>
      (8192 \<le> c \<and> c \<le> 8202) \<or> c = 8232 \<or> c = 8233 \<or> c = 8239 \<or> c = 8287 \<or>
      c = 12288 \<or> c = 65279)"

definition trim :: "jsstring \<Rightarrow> jsstring" where
  "trim s = rev (dropWhile is_js_space (rev (dropWhile is_js_space s)))"

section \<open>Table elements\<close>

text \<open>
  What the content script reads from an \<open>HTMLTableElement\<close>.  \<open>t_rows\<close> is
  \<open>table.rows\<close> with each row's \<open>cells\<close> (for a table element \<open>rows\<close> is always a
  collection, so the test \<open>!table.rows\<close> can only fail through a null table).
  \<open>t_layout\<close> is the answer of \<open>getBoundingClientRect\<close> and \<open>getComputedStyle\<close>;
  \<open>None\<close> stands for one of the two calls raising, which is the only way control
  reaches the \<open>catch\<close> of \<open>isValidTable\<close>.  \<open>t_datepicker\<close> is
  \<open>table.closest(".ui-datepicker") !== null\<close>.
\<close>

record cell =
  textContent :: jsstring
  innerHTML :: jsstring

type_synonym row = "cell list"

record layout =
  l_display :: jsstring
  l_visibility :: jsstring
  l_width :: rat
  l_height :: rat

record table_el =
  t_rows :: "row list"
  t_layout :: "layout option"
  t_datepicker :: bool
  t_outerHTML :: jsstring
  t_outline :: jsstring
  t_backgroundColor :: jsstring
  t_outlineOffset :: jsstring

section \<open>Table Validator (enhanced content script)\<close>

text \<open>\<open>cell.textContent?.trim() || cell.innerHTML?.trim()\<close> is truthy.\<close>

definition cell_has_content :: "cell \<Rightarrow> bool" where
  "cell_has_content c = (trim (textContent c) \<noteq> [] \<or> trim (innerHTML c) \<noteq> [])"

text \<open>
  The two nested loops of strict mode, each leaving at the first hit: rows
  \<open>0 .. min(5, rows.length) - 1\<close>, cells \<open>0 .. min(10, cells.length) - 1\<close>.
\<close>

definition strict_scan :: "row list \<Rightarrow> bool" where
  "strict_scan rs =
     list_ex (\<lambda>r. length r > 0 \<and> list_ex cell_has_content (take 10 r)) (take 5 rs)"

text \<open>\<open>table.rows[0]?.cells.length >= n\<close>; \<open>undefined >= n\<close> is false.\<close>

definition first_row_cells_ge :: "row list \<Rightarrow> nat \<Rightarrow> bool" where
  "first_row_cells_ge rs n = (case rs of [] \<Rightarrow> False | r # _ \<Rightarrow> length r \<ge> n)"

definition isValidTable :: "table_el option \<Rightarrow> bool \<Rightarrow> bool" where
  "isValidTable tbl relaxedMode =
     (case tbl of
        None \<Rightarrow> False
      | Some table \<Rightarrow>
         (case t_layout table of
            None \<Rightarrow> relaxedMode
          | Some lay \<Rightarrow>
              if l_display lay = js ''none'' \<or> l_visibility lay = js ''hidden'' then False
              else if length (t_rows table) < 1 then False
              else
                let hasAnyContent =
                      (if relaxedMode
                       then length (t_rows table) \<ge> 1 \<and> first_row_cells_ge (t_rows table) 1
                       else strict_scan (t_rows table) \<or>
                            (length (t_rows table) \<ge> 2 \<and> first_row_cells_ge (t_rows table) 2))
                in if \<not> hasAnyContent then False
                   else if \<not> relaxedMode \<and> t_datepicker table then False
                   else if l_width lay < 10 \<or> l_height lay < 5 then False
                   else True))"

section \<open>Page and agent state\<close>

text \<open>
  Table elements have identity: the locator removes duplicates by identity and the
  highlighter writes styles into the very elements the locator found.  \<open>p_tables\<close> is
  the store of table elements by node; the three query results are what
  \<open>querySelectorAll\<close> answers, in document order: tables of the main document, tables
  of each iframe (\<open>None\<close> when the iframe has no reachable document or the access
  raises), tables below each potential grid container.  \<open>p_body\<close> lists the children
  the exporter has appended to \<open>document.body\<close>.
\<close>

type_synonym node = nat

datatype body_child = TempButton | TextArea jsstring

record page =
  p_tables :: "node \<Rightarrow> table_el"
  p_mainTables :: "node list"
  p_iframes :: "node list option list"
  p_containers :: "node list list"
  p_body :: "body_child list"

text \<open>The module-level variables of the enhanced content script.\<close>

record agent =
  foundTables :: "node list"
  lastTableCount :: nat
  detectionAttempts :: nat
  backgroundReady :: bool

definition MAX_DETECTION_ATTEMPTS :: nat where
  "MAX_DETECTION_ATTEMPTS = 15"

section \<open>Table Locator (enhanced content script)\<close>

text \<open>
  \<open>if (!processedTables.has(table)) { allTables.push(table); processedTables.add(table) }\<close>
  over a query result; \<open>processedTables\<close> always holds exactly the elements of
  \<open>allTables\<close>.
\<close>

definition push_new :: "node list \<Rightarrow> node list \<Rightarrow> node list" where
  "push_new allTables ts = foldl (\<lambda>acc t. if t \<in> set acc then acc else acc @ [t]) allTables ts"

definition collect_tables :: "page \<Rightarrow> node list" where
  "collect_tables pg =
     (let a1 = push_new [] (p_mainTables pg);
          a2 = foldl (\<lambda>acc fr. case fr of None \<Rightarrow> acc | Some ts \<Rightarrow> push_new acc ts)
                 a1 (p_iframes pg);
          a3 = foldl push_new a2 (p_containers pg)
      in a3)"

record table_info =
  ti_id :: nat
  ti_rows :: nat
  ti_cols :: nat

text \<open>\<open>getTableInfo\<close>: \<open>table.rows[0]?.cells.length || 0\<close>.\<close>

definition getTableInfo :: "table_el \<Rightarrow> nat \<times> nat" where
  "getTableInfo table =
     (length (t_rows table), (case t_rows table of [] \<Rightarrow> 0 | r # _ \<Rightarrow> length r))"

text \<open>
  \<open>findTables\<close> replaces \<open>foundTables\<close> and returns one descriptor per surviving
  table, numbered by position.  The preview string of a descriptor is left out of
  \<open>table_info\<close>: nothing below reads it.  Nothing inside the \<open>try\<close> raises on this
  model, so the \<open>catch\<close> returning the empty list has no branch.
\<close>

definition findTables :: "page \<Rightarrow> bool \<Rightarrow> agent \<Rightarrow> table_info list \<times> agent" where
  "findTables pg relaxedMode ag =
     (let allTables = collect_tables pg;
          found = filter (\<lambda>n. isValidTable (Some (p_tables pg n)) relaxedMode) allTables;
          infos = map (\<lambda>(index, n).
                     (case getTableInfo (p_tables pg n) of
                        (rows, cols) \<Rightarrow> \<lparr>ti_id = index, ti_rows = rows, ti_cols = cols\<rparr>))
                   (enumerate 0 found)
      in (infos, ag\<lparr>foundTables := found\<rparr>))"

section \<open>Change Monitor: detection passes on the event loop\<close>

text \<open>
  \<open>performTableDetection\<close> is an \<open>async\<close> function.  A pass that pushes an
  \<open>updateTables\<close> notification is suspended at \<open>await sendMessageWithRetry(...)\<close>,
  before \<open>detectionAttempts++\<close> and before the retry is armed; while it is suspended
  other callbacks run, among them further calls of \<open>performTableDetection\<close>.  The
  page agent is therefore a transition system: the state holds the module variables,
  the passes suspended at the \<open>await\<close>, the messages handed to
  \<open>chrome.runtime.sendMessage\<close> so far and the delays of the
  \<open>setTimeout(performTableDetection, ...)\<close> armed by passes; an event is a call of
  \<open>performTableDetection\<close>, the settling of a pending \<open>sendMessage\<close>, or the end of a
  back-off wait.
\<close>

datatype message = Ping | UpdateTables "table_info list"

text \<open>
  A call of \<open>chrome.runtime.sendMessage\<close> either rejects or resolves with a response;
  \<open>Reply b\<close> carries \<open>b = (response?.success || response?.status === 'ready')\<close>, the
  only thing the agent reads from a response.
\<close>

datatype reply = Rejected | Reply bool

text \<open>
  Where a \<open>sendMessageWithRetry\<close> stands: waiting for the answer to the ping it sends
  first when the background is not known to be ready, waiting for the answer to
  attempt \<open>i\<close> of the loop, or waiting \<open>1000 * 2 ^ i\<close> milliseconds after attempt \<open>i\<close>
  was rejected.
\<close>

datatype phase = AwaitPing | AwaitSend nat | Backoff nat

definition backoff_ms :: "nat \<Rightarrow> nat" where
  "backoff_ms i = 1000 * 2 ^ i"

definition maxRetries :: nat where
  "maxRetries = 5"

text \<open>
  The start of \<open>sendMessageWithRetry\<close>: the first message put on the channel and the
  phase entered.
\<close>

definition sendMessageWithRetry_start :: "bool \<Rightarrow> message \<Rightarrow> message \<times> phase" where
  "sendMessageWithRetry_start ready msg =
     (if \<not> ready \<and> msg \<noteq> Ping then (Ping, AwaitPing) else (msg, AwaitSend 0))"

text \<open>
  A pass suspended at the \<open>await\<close>: the \<open>currentTableCount\<close> and \<open>tablesInfo\<close> of its
  scan, and the phase of its send.
\<close>

record suspended =
  sp_count :: nat
  sp_tables :: "table_info list"
  sp_phase :: phase

record world =
  w_agent :: agent
  w_passes :: "suspended list"
  w_outbox :: "message list"
  w_armed :: "rat list"

text \<open>\<open>Math.min(2000 * Math.pow(1.5, detectionAttempts - 1), 10000)\<close>.\<close>

definition nextInterval :: "nat \<Rightarrow> rat" where
  "nextInterval attempts = min (2000 * (3 / 2) ^ (attempts - 1)) 10000"

text \<open>
  The rest of a pass after the push (or at once, when there is no push):
  \<open>detectionAttempts++\<close> on the variables as they are then, and the retry armed when
  the scan of this pass found nothing and the count is below the maximum.
\<close>

definition finish_pass :: "nat \<Rightarrow> world \<Rightarrow> world" where
  "finish_pass currentTableCount w =
     (let ag = (w_agent w)\<lparr>detectionAttempts := detectionAttempts (w_agent w) + 1\<rparr>
      in w\<lparr>w_agent := ag,
           w_armed := w_armed w @
             (if currentTableCount = 0 \<and> detectionAttempts ag < MAX_DETECTION_ATTEMPTS
              then [nextInterval (detectionAttempts ag)] else [])\<rparr>)"

text \<open>
  A call of \<open>performTableDetection\<close>, up to the \<open>await\<close>.  \<open>findTables\<close> never raises
  and the push sits in its own \<open>try\<close>, so the outer \<open>catch\<close> (re-arm after 3000 ms)
  has no branch here.
\<close>

definition performTableDetection :: "page \<Rightarrow> world \<Rightarrow> world" where
  "performTableDetection pg w =
     (case findTables pg True (w_agent w) of
        (tablesInfo, ag1) \<Rightarrow>
          let currentTableCount = length tablesInfo
          in if currentTableCount \<noteq> lastTableCount ag1 \<or> detectionAttempts ag1 = 0
             then
               let ag2 = ag1\<lparr>lastTableCount := currentTableCount\<rparr>
               in (case sendMessageWithRetry_start (backgroundReady ag2)
                          (UpdateTables tablesInfo) of
                     (first, ph) \<Rightarrow>
                       w\<lparr>w_agent := ag2,
                          w_outbox := w_outbox w @ [first],
                          w_passes := w_passes w @
                            [\<lparr>sp_count = currentTableCount, sp_tables = tablesInfo,
                              sp_phase = ph\<rparr>]\<rparr>)
             else finish_pass currentTableCount (w\<lparr>w_agent := ag1\<rparr>))"

text \<open>
  The pending \<open>sendMessage\<close> of suspended pass \<open>i\<close> settles.  After the ping the
  loop makes its first attempt; a resolved attempt ends the send, a rejected one is
  followed by a wait, the last one by the \<open>throw\<close> that the \<open>catch\<close> around the push
  swallows.  Either way the pass then runs to its end.
\<close>

definition settled :: "nat \<Rightarrow> reply \<Rightarrow> world \<Rightarrow> world" where
  "settled i r w =
     (if i < length (w_passes w)
      then
        let p = w_passes w ! i
        in (case sp_phase p of
              AwaitPing \<Rightarrow>
                w\<lparr>w_agent := (case r of
                                  Rejected \<Rightarrow> w_agent w
                                | Reply b \<Rightarrow> (w_agent w)\<lparr>backgroundReady := b\<rparr>),
                   w_outbox := w_outbox w @ [UpdateTables (sp_tables p)],
                   w_passes := (w_passes w)[i := p\<lparr>sp_phase := AwaitSend 0\<rparr>]\<rparr>
            | AwaitSend k \<Rightarrow>
                (case r of
                   Reply _ \<Rightarrow>
                     finish_pass (sp_count p)
                       (w\<lparr>w_passes := take i (w_passes w) @ drop (Suc i) (w_passes w)\<rparr>)
                 | Rejected \<Rightarrow>
                     if k = maxRetries - 1
                     then finish_pass (sp_count p)
                            (w\<lparr>w_passes := take i (w_passes w) @ drop (Suc i) (w_passes w)\<rparr>)
                     else w\<lparr>w_passes := (w_passes w)[i := p\<lparr>sp_phase := Backoff k\<rparr>]\<rparr>)
            | Backoff k \<Rightarrow> w)
      else w)"

text \<open>The back-off wait of suspended pass \<open>i\<close> is over: the next attempt is made.\<close>

definition waited :: "nat \<Rightarrow> world \<Rightarrow> world" where
  "waited i w =
     (if i < length (w_passes w)
      then
        let p = w_passes w ! i
        in (case sp_phase p of
              Backoff k \<Rightarrow>
                w\<lparr>w_outbox := w_outbox w @ [UpdateTables (sp_tables p)],
                   w_passes := (w_passes w)[i := p\<lparr>sp_phase := AwaitSend (Suc k)\<rparr>]\<rparr>
            | _ \<Rightarrow> w)
      else w)"

text \<open>
  What calls \<open>performTableDetection\<close>: a timer (those of \<open>initializeTableDetection\<close>,
  of the load handler, or a retry armed by a pass), the mutation observer through its
  debounced wrappers, the \<open>visibilitychange\<close> handler when the document is visible,
  and the 30 second poll.  None of them touches the module variables before the call.
\<close>

datatype trigger = Timer | Mutation | Visibility | Poll

datatype event = Call trigger | Settled nat reply | Waited nat

definition step :: "page \<Rightarrow> world \<Rightarrow> event \<Rightarrow> world" where
  "step pg w ev =
     (case ev of
        Call _ \<Rightarrow> performTableDetection pg w
      | Settled i r \<Rightarrow> settled i r w
      | Waited i \<Rightarrow> waited i w)"

definition run :: "page \<Rightarrow> world \<Rightarrow> event list \<Rightarrow> world" where
  "run pg w evs = foldl (step pg) w evs"

section \<open>Clipboard Exporter\<close>

text \<open>
  A response \<open>{ success, error? }\<close>.  The clipboard is the platform's: whether
  \<open>supportsClipboardAPI()\<close> holds, whether \<open>navigator.clipboard.writeText\<close> resolves,
  and what \<open>document.execCommand('copy')\<close> does (it returns a boolean, or raises an
  error whose \<open>formatError\<close> text is given).  The effect on the page is the list of
  operations performed on \<open>document.body\<close>, in order.
\<close>

record response =
  r_success :: bool
  r_error :: "jsstring option"

datatype exec_result = ExecReturns bool | ExecThrows jsstring

record clipboard =
  cb_supported :: bool
  cb_writeText :: bool
  cb_exec :: exec_result

datatype dom_op = AppendChild body_child | RemoveChild body_child

definition apply_op :: "body_child list \<Rightarrow> dom_op \<Rightarrow> body_child list" where
  "apply_op body op =
     (case op of AppendChild c \<Rightarrow> body @ [c] | RemoveChild c \<Rightarrow> remove1 c body)"

definition succeeded :: response where
  "succeeded = \<lparr>r_success = True, r_error = None\<rparr>"

definition failed :: "jsstring \<Rightarrow> response" where
  "failed msg = \<lparr>r_success = False, r_error = Some msg\<rparr>"

text \<open>\<open>Array.prototype.join\<close> on strings.\<close>

fun join :: "jsstring \<Rightarrow> jsstring list \<Rightarrow> jsstring" where
  "join sep [] = []"
| "join sep [x] = x"
| "join sep (x # y # ys) = x @ sep @ join sep (y # ys)"

text \<open>The decimal text of a non-negative integer, as a template literal prints it.\<close>

fun str_nat :: "nat \<Rightarrow> jsstring" where
  "str_nat n = (if n < 10 then [48 + n] else str_nat (n div 10) @ [48 + n mod 10])"

text \<open>\<open>id >= 0 && id < foundTables.length\<close> on a table id of the request.\<close>

definition in_range :: "node list \<Rightarrow> int \<Rightarrow> bool" where
  "in_range found tableId = (0 \<le> tableId \<and> tableId < int (length found))"

subsection \<open>Enhanced content script\<close>

text \<open>The error texts, as UTF-16 code units.\<close>

definition msg_no_tables :: jsstring where
  "msg_no_tables = [27809, 26377, 25214, 21040, 34920, 26684]"

definition msg_invalid_id :: jsstring where
  "msg_invalid_id = [26080, 25928, 30340, 34920, 26684, 73, 68]"

definition msg_copy_command_failed :: jsstring where
  "msg_copy_command_failed =
     [22797, 21046, 21629, 20196, 25191, 34892, 22833, 36133, 65292, 35831, 30830, 20445,
      39029, 38754, 22788, 20110, 27963, 21160, 29366, 24577]"

definition msg_none_selected :: jsstring where
  "msg_none_selected = [27809, 26377, 36873, 20013, 30340, 34920, 26684]"

definition msg_selected_invalid :: jsstring where
  "msg_selected_invalid = [36873, 20013, 30340, 34920, 26684, 73, 68, 26080, 25928]"

text \<open>
  The part the three export functions of the enhanced script repeat word for word once
  \<open>tableHtml\<close> is built: the Clipboard API behind a temporary button, then the
  off-screen textarea and the legacy copy command.  When \<open>writeText\<close> rejects, the
  temporary button stays in the body; when \<open>execCommand\<close> raises, the outer \<open>catch\<close>
  answers and the textarea stays.
\<close>

definition write_enhanced :: "clipboard \<Rightarrow> jsstring \<Rightarrow> response \<times> dom_op list" where
  "write_enhanced cb tableHtml =
     (if cb_supported cb \<and> cb_writeText cb
      then (succeeded, [AppendChild TempButton, RemoveChild TempButton])
      else
        let ops1 = (if cb_supported cb then [AppendChild TempButton] else []);
            ops2 = ops1 @ [AppendChild (TextArea tableHtml)]
        in (case cb_exec cb of
              ExecThrows msg \<Rightarrow> (failed msg, ops2)
            | ExecReturns successful \<Rightarrow>
                (if \<not> successful then failed msg_copy_command_failed else succeeded,
                 ops2 @ [RemoveChild (TextArea tableHtml)])))"

text \<open>\<open>tables.map(table => table.outerHTML).join(LF LF)\<close>, \<open>LF\<close> the line feed.\<close>

definition tables_html :: "page \<Rightarrow> node list \<Rightarrow> jsstring" where
  "tables_html pg tables = join [10, 10] (map (\<lambda>n. t_outerHTML (p_tables pg n)) tables)"

definition copyTablesToClipboard ::
    "page \<Rightarrow> clipboard \<Rightarrow> node list \<Rightarrow> response \<times> dom_op list" where
  "copyTablesToClipboard pg cb found =
     (if length found = 0 then (failed msg_no_tables, [])
      else write_enhanced cb (tables_html pg found))"

definition copySingleTableToClipboard ::
    "page \<Rightarrow> clipboard \<Rightarrow> node list \<Rightarrow> int \<Rightarrow> response \<times> dom_op list" where
  "copySingleTableToClipboard pg cb found tableId =
     (if tableId < 0 \<or> tableId \<ge> int (length found) then (failed msg_invalid_id, [])
      else write_enhanced cb (t_outerHTML (p_tables pg (found ! nat tableId))))"

definition copySelectedTablesToClipboard ::
    "page \<Rightarrow> clipboard \<Rightarrow> node list \<Rightarrow> int list \<Rightarrow> response \<times> dom_op list" where
  "copySelectedTablesToClipboard pg cb found selectedIds =
     (if length selectedIds = 0 then (failed msg_none_selected, [])
      else
        let selectedTables = map (\<lambda>i. found ! nat i) (filter (in_range found) selectedIds)
        in if length selectedTables = 0 then (failed msg_selected_invalid, [])
           else write_enhanced cb (tables_html pg selectedTables))"

subsection \<open>Basic content script\<close>

definition msg2_invalid_id :: jsstring where
  "msg2_invalid_id = [34920, 26684, 73, 68, 26080, 25928]"

definition msg2_exec_failed :: jsstring where
  "msg2_exec_failed = js ''execCommand'' @ [22797, 21046, 22833, 36133]"

definition msg2_exec_error :: jsstring where
  "msg2_exec_error = js ''execCommand'' @ [38169, 35823, 58, 32]"

definition msg2_none_selected :: jsstring where
  "msg2_none_selected = [27809, 26377, 36873, 25321, 34920, 26684]"

definition msg2_no_valid :: jsstring where
  "msg2_no_valid = [27809, 26377, 26377, 25928, 30340, 34920, 26684]"

text \<open>The label \<open>=== <table> N ===\<close> followed by a line feed, \<open><table>\<close> being two CJK units.\<close>

definition table_label :: "nat \<Rightarrow> jsstring" where
  "table_label n = js ''=== '' @ [34920, 26684] @ js '' '' @ str_nat n @ js '' ==='' @ [10]"

definition table_text :: "page \<Rightarrow> nat \<Rightarrow> node \<Rightarrow> jsstring" where
  "table_text pg index n = table_label (index + 1) @ t_outerHTML (p_tables pg n) @ [10]"

text \<open>
  The part the three export functions of the basic script repeat: Clipboard API first,
  then a textarea that the \<open>finally\<close> always removes.  Nothing here raises out of the
  operation, so the fallback of \<open>safeAsync\<close> has no branch.
\<close>

definition write_basic :: "clipboard \<Rightarrow> jsstring \<Rightarrow> response \<times> dom_op list" where
  "write_basic cb tableText =
     (if cb_supported cb \<and> cb_writeText cb then (succeeded, [])
      else
        (case cb_exec cb of
           ExecReturns success \<Rightarrow>
             \<lparr>r_success = success,
              r_error = (if success then None else Some msg2_exec_failed)\<rparr>
         | ExecThrows msg \<Rightarrow> failed (msg2_exec_error @ msg),
         [AppendChild (TextArea tableText), RemoveChild (TextArea tableText)]))"

text \<open>\<open>foundTables.map((table, index) => label + table.outerHTML + LF).join(LF)\<close>.\<close>

definition tables_text :: "page \<Rightarrow> node list \<Rightarrow> jsstring" where
  "tables_text pg found =
     join [10] (map (\<lambda>(index, n). table_text pg index n) (enumerate 0 found))"

definition copyTablesToClipboard2 ::
    "page \<Rightarrow> clipboard \<Rightarrow> node list \<Rightarrow> response \<times> dom_op list" where
  "copyTablesToClipboard2 pg cb found =
     (if length found = 0 then (failed msg_no_tables, [])
      else write_basic cb (tables_text pg found))"

definition copySingleTableToClipboard2 ::
    "page \<Rightarrow> clipboard \<Rightarrow> node list \<Rightarrow> int \<Rightarrow> response \<times> dom_op list" where
  "copySingleTableToClipboard2 pg cb found tableId =
     (if tableId < 0 \<or> tableId \<ge> int (length found) then (failed msg2_invalid_id, [])
      else write_basic cb (table_text pg (nat tableId) (found ! nat tableId)))"

text \<open>
  \<open>.map(id => out of range ? null : text).filter(Boolean).join(LF)\<close>: \<open>Boolean\<close>
  drops the nulls (and would drop an empty string).
\<close>

definition copySelectedTablesToClipboard2 ::
    "page \<Rightarrow> clipboard \<Rightarrow> node list \<Rightarrow> int list \<Rightarrow> response \<times> dom_op list" where
  "copySelectedTablesToClipboard2 pg cb found selectedIds =
     (if length selectedIds = 0 then (failed msg2_none_selected, [])
      else
        let mapped = map (\<lambda>tableId.
                       if tableId < 0 \<or> tableId \<ge> int (length found) then None
                       else Some (table_text pg (nat tableId) (found ! nat tableId)))
                     selectedIds;
            kept = map the (filter (\<lambda>x. x \<noteq> None \<and> x \<noteq> Some []) mapped);
            tablesText = join [10] kept
        in if tablesText = [] then (failed msg2_no_valid, [])
           else write_basic cb tablesText)"

section \<open>Highlighting\<close>

subsection \<open>Enhanced content script\<close>

text \<open>\<open>clearHighlight\<close> empties outline and background of every current candidate.\<close>

definition clearHighlight :: "page \<Rightarrow> node list \<Rightarrow> page" where
  "clearHighlight pg found =
     pg\<lparr>p_tables := (\<lambda>n. if n \<in> set found
                            then (p_tables pg n)\<lparr>t_outline := [], t_backgroundColor := []\<rparr>
                            else p_tables pg n)\<rparr>"

text \<open>
  \<open>highlightTable\<close> returns the page and the element it scrolled into view, if any.
\<close>

definition highlightTable :: "page \<Rightarrow> node list \<Rightarrow> int \<Rightarrow> page \<times> node option" where
  "highlightTable pg found tableId =
     (let pg1 = clearHighlight pg found
      in if tableId \<ge> 0 \<and> tableId < int (length found)
         then
           let table = found ! nat tableId
           in (pg1\<lparr>p_tables := (p_tables pg1)
                    (table := (p_tables pg1 table)
                       \<lparr>t_outline := js ''3px solid #ff6b6b'',
                        t_backgroundColor := js ''rgba(255, 107, 107, 0.1)''\<rparr>)\<rparr>,
               Some table)
         else (pg1, None))"

text \<open>
  The \<open>highlightTable\<close> case of the message listener; \<open>None\<close> is a request without
  \<open>tableId\<close>.  The answer is sent after the \<open>if\<close>, on every path.
\<close>

definition on_highlightTable ::
    "page \<Rightarrow> node list \<Rightarrow> int option \<Rightarrow> response \<times> page \<times> node option" where
  "on_highlightTable pg found tableId =
     (let eff = (case tableId of None \<Rightarrow> (pg, None) | Some i \<Rightarrow> highlightTable pg found i)
      in (succeeded, eff))"

subsection \<open>Basic content script\<close>

definition clearHighlight2 :: "page \<Rightarrow> node option \<Rightarrow> page \<times> node option" where
  "clearHighlight2 pg previouslyHighlighted =
     (case previouslyHighlighted of
        None \<Rightarrow> (pg, None)
      | Some n \<Rightarrow> (pg\<lparr>p_tables := (p_tables pg)(n := (p_tables pg n)\<lparr>t_outline := []\<rparr>)\<rparr>, None))"

text \<open>\<open>foundTables[tableId]\<close> is \<open>undefined\<close> outside the array.\<close>

definition highlightTable2 ::
    "page \<Rightarrow> node list \<Rightarrow> node option \<Rightarrow> int \<Rightarrow> page \<times> node option" where
  "highlightTable2 pg found previouslyHighlighted tableId =
     (case clearHighlight2 pg previouslyHighlighted of
        (pg1, prev1) \<Rightarrow>
          if 0 \<le> tableId \<and> tableId < int (length found)
          then
            let table = found ! nat tableId
            in (pg1\<lparr>p_tables := (p_tables pg1)
                     (table := (p_tables pg1 table)
                        \<lparr>t_outline := js ''3px solid #007bff'',
                         t_outlineOffset := js ''2px''\<rparr>)\<rparr>,
                Some table)
          else (pg1, prev1))"

definition on_highlightTable2 ::
    "page \<Rightarrow> node list \<Rightarrow> node option \<Rightarrow> int option \<Rightarrow> response \<times> page \<times> node option" where
  "on_highlightTable2 pg found previouslyHighlighted tableId =
     (let eff = (case tableId of
                   None \<Rightarrow> (pg, previouslyHighlighted)
                 | Some i \<Rightarrow> highlightTable2 pg found previouslyHighlighted i)
      in (succeeded, eff))"

section \<open>Copy-Protection Toggler\<close>

text \<open>\<open>String.prototype.includes\<close>.\<close>

fun starts_with :: "jsstring \<Rightarrow> jsstring \<Rightarrow> bool" where
  "starts_with [] s = True"
| "starts_with (p # ps) [] = False"
| "starts_with (p # ps) (c # cs) = (p = c \<and> starts_with ps cs)"

fun str_includes :: "jsstring \<Rightarrow> jsstring \<Rightarrow> bool" where
  "str_includes [] sub = (sub = [])"
| "str_includes (c # cs) sub = (starts_with sub (c # cs) \<or> str_includes cs sub)"

text \<open>
  A CSS rule: whether it is a \<open>CSSStyleRule\<close>, whether it carries a \<open>style\<close>
  declaration block, its selector, its declarations as property and value, and its
  \<open>cssText\<close>.  A style
  sheet is its rule list, \<open>None\<close> when reading \<open>cssRules\<close> raises (a cross-origin
  sheet).  The page holds the sheets, the text of the \<open>style\<close> elements of the head
  and of the rest of the document, and the event types with a capturing listener
  added by the toggler.
\<close>

record css_rule =
  cr_isStyleRule :: bool
  cr_hasStyle :: bool
  cr_selectorText :: jsstring
  cr_decls :: "(jsstring \<times> jsstring) list"
  cr_cssText :: jsstring

type_synonym sheet = "css_rule list option"

record css_page =
  cp_sheets :: "sheet list"
  cp_headStyles :: "jsstring list"
  cp_otherStyles :: "jsstring list"
  cp_listeners :: "jsstring list"

record toggle_response =
  tr_success :: bool
  tr_copyEnabled :: bool

text \<open>The value a declaration block reports for a property, empty when it is not set.\<close>

definition decl_value :: "css_rule \<Rightarrow> jsstring \<Rightarrow> jsstring" where
  "decl_value r p = (case map_of (cr_decls r) p of None \<Rightarrow> [] | Some v \<Rightarrow> v)"

subsection \<open>Enhanced content script\<close>

text \<open>
  \<open>cssRule.style && (style.userSelect === 'none' || style.webkitUserSelect === 'none'
  || style.userSelect === 'none')\<close>.
\<close>

definition blocks_selection :: "css_rule \<Rightarrow> bool" where
  "blocks_selection r =
     (cr_hasStyle r \<and>
      (decl_value r (js ''user-select'') = js ''none'' \<or>
       decl_value r (js ''-webkit-user-select'') = js ''none'' \<or>
       decl_value r (js ''user-select'') = js ''none''))"

text \<open>
  The loop over a snapshot of the rules, deleting from the live sheet by the index of
  the snapshot.  \<open>deleteRule\<close> raises when the index is no longer inside the live
  sheet; the \<open>catch\<close> around the sheet then leaves the sheet as it is at that point.
  The arguments are the snapshot index, the rest of the snapshot and the live rules.
\<close>

fun delete_blocking :: "nat \<Rightarrow> css_rule list \<Rightarrow> css_rule list \<Rightarrow> css_rule list" where
  "delete_blocking index [] live = live"
| "delete_blocking index (rule # rest) live =
     (if blocks_selection rule
      then (if index < length live
            then delete_blocking (Suc index) rest (take index live @ drop (Suc index) live)
            else live)
      else delete_blocking (Suc index) rest live)"

definition override_text :: jsstring where
  "override_text =
     js '''' @ [10] @
     js ''      * {'' @ [10] @
     js ''        -webkit-user-select: text !important;'' @ [10] @
     js ''        -moz-user-select: text !important;'' @ [10] @
     js ''        -ms-user-select: text !important;'' @ [10] @
     js ''        user-select: text !important;'' @ [10] @
     js ''      }'' @ [10] @
     js ''    ''"

definition disableCopyProtection :: "css_page \<Rightarrow> css_page" where
  "disableCopyProtection cp =
     cp\<lparr>cp_sheets := map (map_option (\<lambda>rules. delete_blocking 0 rules rules)) (cp_sheets cp),
        cp_headStyles := cp_headStyles cp @ [override_text]\<rparr>"

definition enableCopyProtection :: "css_page \<Rightarrow> css_page" where
  "enableCopyProtection cp =
     cp\<lparr>cp_headStyles :=
          filter (\<lambda>t. \<not> str_includes t (js ''user-select: text !important'')) (cp_headStyles cp),
        cp_otherStyles :=
          filter (\<lambda>t. \<not> str_includes t (js ''user-select: text !important'')) (cp_otherStyles cp)\<rparr>"

text \<open>
  \<open>toggleCopyProtection\<close> on the page and the flag \<open>copyProtectionDisabled\<close>; the
  response reports the flag after the switch.
\<close>

definition toggleCopyProtection :: "css_page \<times> bool \<Rightarrow> toggle_response \<times> css_page \<times> bool" where
  "toggleCopyProtection s =
     (case s of (cp, copyProtectionDisabled) \<Rightarrow>
        if copyProtectionDisabled
        then (\<lparr>tr_success = True, tr_copyEnabled = False\<rparr>, enableCopyProtection cp, False)
        else (\<lparr>tr_success = True, tr_copyEnabled = True\<rparr>, disableCopyProtection cp, True))"

subsection \<open>Basic content script\<close>

text \<open>
  The save-table \<open>originalStyles\<close> maps a rule to its saved text; a rule is known by
  the position of its sheet and its position in the sheet, which this script never
  changes.
\<close>

type_synonym originals = "nat \<times> nat \<rightharpoonup> jsstring"

definition selector_matches :: "css_rule \<Rightarrow> bool" where
  "selector_matches r =
     (cr_isStyleRule r \<and> cr_selectorText r \<noteq> [] \<and>
      (str_includes (cr_selectorText r) (js ''user-select'') \<or>
       str_includes (cr_selectorText r) (js ''-webkit-user-select'') \<or>
       str_includes (cr_selectorText r) (js ''-moz-user-select'') \<or>
       str_includes (cr_selectorText r) (js ''-ms-user-select'') \<or>
       str_includes (cr_selectorText r) (js ''pointer-events'') \<or>
       str_includes (cr_selectorText r) (js ''::selection'') \<or>
       str_includes (cr_selectorText r) (js ''::-moz-selection'')))"

text \<open>
  The text of a rule after its declarations changed: selector, then the declarations
  between braces.
\<close>

definition serialize :: "jsstring \<Rightarrow> (jsstring \<times> jsstring) list \<Rightarrow> jsstring" where
  "serialize sel decls =
     sel @ js '' {'' @ concat (map (\<lambda>(p, v). js '' '' @ p @ js '': '' @ v @ js '';'') decls)
       @ js '' }''"

definition removeProperty :: "jsstring \<Rightarrow> css_rule \<Rightarrow> css_rule" where
  "removeProperty p r =
     (let decls = filter (\<lambda>(q, v). q \<noteq> p) (cr_decls r)
      in r\<lparr>cr_decls := decls, cr_cssText := serialize (cr_selectorText r) decls\<rparr>)"

definition neutralize :: "css_rule \<Rightarrow> css_rule" where
  "neutralize r =
     removeProperty (js ''pointer-events'')
       (removeProperty (js ''-ms-user-select'')
          (removeProperty (js ''-moz-user-select'')
             (removeProperty (js ''-webkit-user-select'')
                (removeProperty (js ''user-select'') r))))"

text \<open>
  The loop over the rules of sheet \<open>si\<close>, from rule \<open>ri\<close> on: a matching rule is saved
  under its position and then neutralized.
\<close>

fun disable_rules ::
    "nat \<Rightarrow> nat \<Rightarrow> css_rule list \<Rightarrow> originals \<Rightarrow> css_rule list \<times> originals" where
  "disable_rules si ri [] orig = ([], orig)"
| "disable_rules si ri (rule # rest) orig =
     (if selector_matches rule
      then (case disable_rules si (Suc ri) rest (orig((si, ri) \<mapsto> cr_cssText rule)) of
              (rest', orig') \<Rightarrow> (neutralize rule # rest', orig'))
      else (case disable_rules si (Suc ri) rest orig of
              (rest', orig') \<Rightarrow> (rule # rest', orig')))"

fun disable_sheets :: "nat \<Rightarrow> sheet list \<Rightarrow> originals \<Rightarrow> sheet list \<times> originals" where
  "disable_sheets si [] orig = ([], orig)"
| "disable_sheets si (None # rest) orig =
     (case disable_sheets (Suc si) rest orig of (rest', orig') \<Rightarrow> (None # rest', orig'))"
| "disable_sheets si (Some rules # rest) orig =
     (case disable_rules si 0 rules orig of
        (rules', orig1) \<Rightarrow>
          (case disable_sheets (Suc si) rest orig1 of
             (rest', orig') \<Rightarrow> (Some rules' # rest', orig')))"

definition allow_copy_text :: jsstring where
  "allow_copy_text =
     js '''' @ [10] @
     js ''    * {'' @ [10] @
     js ''      -webkit-user-select: auto !important;'' @ [10] @
     js ''      -moz-user-select: auto !important;'' @ [10] @
     js ''      -ms-user-select: auto !important;'' @ [10] @
     js ''      user-select: auto !important;'' @ [10] @
     js ''      -webkit-touch-callout: auto !important;'' @ [10] @
     js ''      -webkit-tap-highlight-color: transparent !important;'' @ [10] @
     js ''    }'' @ [10] @
     js ''    ::selection {'' @ [10] @
     js ''      background: #007bff !important;'' @ [10] @
     js ''      color: white !important;'' @ [10] @
     js ''    }'' @ [10] @
     js ''    ::-moz-selection {'' @ [10] @
     js ''      background: #007bff !important;'' @ [10] @
     js ''      color: white !important;'' @ [10] @
     js ''    }'' @ [10] @
     js ''  ''"

definition blocked_events :: "jsstring list" where
  "blocked_events =
     [js ''copy'', js ''cut'', js ''selectstart'', js ''select'', js ''contextmenu'',
      js ''mousedown'', js ''mouseup'', js ''keydown'', js ''keyup'']"

definition disableCopyProtection2 :: "css_page \<times> originals \<Rightarrow> css_page \<times> originals" where
  "disableCopyProtection2 s =
     (case s of (cp, originalStyles) \<Rightarrow>
        (case disable_sheets 0 (cp_sheets cp) originalStyles of
           (sheets', orig') \<Rightarrow>
             (cp\<lparr>cp_sheets := sheets',
                 cp_headStyles := cp_headStyles cp @ [allow_copy_text],
                 cp_listeners := cp_listeners cp @ blocked_events
                                   @ [js ''contextmenu'', js ''selectstart'']\<rparr>,
              orig')))"

text \<open>
  The enable path walks the save-table and executes \<open>rule.cssText = originalStyle\<close>
  for every entry.  On a CSS rule the setter of \<open>cssText\<close> does nothing (CSSOM: "on
  setting the \<open>cssText\<close> attribute must do nothing"), so the assignment leaves the
  rule, its declarations and its text as they are.
\<close>

definition set_cssText :: "css_rule \<Rightarrow> jsstring \<Rightarrow> css_rule" where
  "set_cssText rule text = rule"

fun restore_rules :: "nat \<Rightarrow> nat \<Rightarrow> css_rule list \<Rightarrow> originals \<Rightarrow> css_rule list" where
  "restore_rules si ri [] orig = []"
| "restore_rules si ri (rule # rest) orig =
     (case orig (si, ri) of
        None \<Rightarrow> rule
      | Some originalStyle \<Rightarrow> set_cssText rule originalStyle)
     # restore_rules si (Suc ri) rest orig"

fun restore_sheets :: "nat \<Rightarrow> sheet list \<Rightarrow> originals \<Rightarrow> sheet list" where
  "restore_sheets si [] orig = []"
| "restore_sheets si (sh # rest) orig =
     map_option (\<lambda>rules. restore_rules si 0 rules orig) sh # restore_sheets (Suc si) rest orig"

definition enableCopyProtection2 :: "css_page \<times> originals \<Rightarrow> css_page \<times> originals" where
  "enableCopyProtection2 s =
     (case s of (cp, originalStyles) \<Rightarrow>
        (cp\<lparr>cp_sheets := restore_sheets 0 (cp_sheets cp) originalStyles,
            cp_headStyles :=
              filter (\<lambda>t. \<not> (t \<noteq> [] \<and> str_includes t (js ''user-select: auto''))) (cp_headStyles cp),
            cp_otherStyles :=
              filter (\<lambda>t. \<not> (t \<noteq> [] \<and> str_includes t (js ''user-select: auto''))) (cp_otherStyles cp)\<rparr>,
         Map.empty))"

definition toggleCopyProtection2 ::
    "(css_page \<times> originals) \<times> bool \<Rightarrow> toggle_response \<times> (css_page \<times> originals) \<times> bool" where
  "toggleCopyProtection2 s =
     (case s of (st, copyProtectionDisabled) \<Rightarrow>
        if copyProtectionDisabled
        then (\<lparr>tr_success = True, tr_copyEnabled = False\<rparr>, enableCopyProtection2 st, False)
        else (\<lparr>tr_success = True, tr_copyEnabled = True\<rparr>, disableCopyProtection2 st, True))"

section \<open>Header Rule Manager (background script)\<close>

record header =
  h_id :: jsstring
  h_name :: jsstring
  h_value :: jsstring
  h_enabled :: bool

text \<open>
  A dynamic rule as \<open>updateNetworkRules\<close> builds it: operation \<open>set\<close> of one request
  header, on the given URL filter and resource types.
\<close>

record net_rule =
  nr_id :: nat
  nr_priority :: nat
  nr_header :: jsstring
  nr_value :: jsstring
  nr_urlFilter :: jsstring
  nr_resourceTypes :: "jsstring list"

text \<open>
  The platform's store of dynamic rules.  \<open>updateDynamicRules\<close> first removes the
  rules with the given ids and then adds the new ones; it rejects, changing nothing,
  when an added rule has an id below 1 or the ids would no longer be unique.
\<close>

type_synonym rule_store = "net_rule list"

definition getDynamicRules :: "rule_store \<Rightarrow> net_rule list" where
  "getDynamicRules st = st"

definition updateDynamicRules ::
    "rule_store \<Rightarrow> net_rule list \<Rightarrow> nat list \<Rightarrow> bool \<times> rule_store" where
  "updateDynamicRules st addRules removeRuleIds =
     (let kept = filter (\<lambda>r. nr_id r \<notin> set removeRuleIds) st
      in if list_all (\<lambda>r. 1 \<le> nr_id r) addRules \<and> distinct (map nr_id (kept @ addRules))
         then (True, kept @ addRules)
         else (False, st))"

text \<open>\<open>clearNetworkRules\<close>: the result is whether the function returned normally.\<close>

definition clearNetworkRules :: "rule_store \<Rightarrow> bool \<times> rule_store" where
  "clearNetworkRules st =
     (let rules = getDynamicRules st;
          ruleIds = map nr_id rules
      in if length ruleIds > 0 then updateDynamicRules st [] ruleIds else (True, st))"

definition all_resource_types :: "jsstring list" where
  "all_resource_types =
     [js ''main_frame'', js ''sub_frame'', js ''stylesheet'', js ''script'', js ''image'',
      js ''font'', js ''object'', js ''xmlhttprequest'', js ''ping'', js ''csp_report'',
      js ''media'', js ''websocket'', js ''other'']"

definition make_rule :: "nat \<Rightarrow> header \<Rightarrow> net_rule" where
  "make_rule index h =
     \<lparr>nr_id = index + 1, nr_priority = 1, nr_header = h_name h, nr_value = h_value h,
      nr_urlFilter = js ''*://*/*'', nr_resourceTypes = all_resource_types\<rparr>"

text \<open>
  \<open>updateNetworkRules\<close> of the background script that awaits and rethrows: a failed
  step ends the function with the store as it is then.
\<close>

definition updateNetworkRules :: "header list \<Rightarrow> rule_store \<Rightarrow> bool \<times> rule_store" where
  "updateNetworkRules customHeaders st =
     (case clearNetworkRules st of
        (False, st1) \<Rightarrow> (False, st1)
      | (True, st1) \<Rightarrow>
          if length customHeaders = 0 then (True, st1)
          else updateDynamicRules st1
                 (map (\<lambda>(index, h). make_rule index h) (enumerate 0 customHeaders)) [])"

text \<open>
  The older background script logs and swallows the errors of both functions, so a
  failed clearing is followed by the adding all the same.
\<close>

definition updateNetworkRules1 :: "header list \<Rightarrow> rule_store \<Rightarrow> rule_store" where
  "updateNetworkRules1 customHeaders st =
     (let st1 = snd (clearNetworkRules st)
      in if length customHeaders = 0 then st1
         else snd (updateDynamicRules st1
                     (map (\<lambda>(index, h). make_rule index h) (enumerate 0 customHeaders)) []))"

text \<open>
  The \<open>applyHeaders\<close> case of the background listener, with \<open>request.headers\<close>
  present: the headers replace \<open>customHeaders\<close> and the rules are rebuilt.  The answer
  is \<open>{ success: true }\<close> when \<open>updateNetworkRules\<close> returns normally.
\<close>

definition applyHeaders :: "header list \<Rightarrow> rule_store \<Rightarrow> bool \<times> rule_store" where
  "applyHeaders headers st = updateNetworkRules headers st"

definition applyHeaders1 :: "header list \<Rightarrow> rule_store \<Rightarrow> bool \<times> rule_store" where
  "applyHeaders1 headers st = (True, updateNetworkRules1 headers st)"

definition clearHeaders :: "rule_store \<Rightarrow> bool \<times> rule_store" where
  "clearHeaders st = clearNetworkRules st"

section \<open>Notions used in the statements\<close>

text \<open>The clipboard write goes through: by the Clipboard API or by the legacy command.\<close>

definition clipboard_works :: "clipboard \<Rightarrow> bool" where
  "clipboard_works cb =
     ((cb_supported cb \<and> cb_writeText cb) \<or> cb_exec cb = ExecReturns True)"

text \<open>
  The payload in the words of the specification: each table's markup with its index
  label before it, counting from \<open>k\<close>, one after the other.  (Each block ends with a
  line feed and a further line feed separates two blocks.)
\<close>

fun labelled_from :: "nat \<Rightarrow> jsstring list \<Rightarrow> jsstring" where
  "labelled_from k [] = []"
| "labelled_from k [m] = table_label k @ m @ [10]"
| "labelled_from k (m # m' # ms) =
     table_label k @ m @ [10] @ [10] @ labelled_from (Suc k) (m' # ms)"

text \<open>The rules \<open>updateNetworkRules\<close> builds for a header list.\<close>

definition rules_of :: "header list \<Rightarrow> net_rule list" where
  "rules_of hs = map (\<lambda>(index, h). make_rule index h) (enumerate 0 hs)"

section \<open>Concrete pages and states\<close>

text \<open>
  A visible 100 by 50 pixel table whose first row has no cell and whose second row
  holds one cell with the text \<open>x\<close>, as
  \<open><table><tr></tr><tr><td>x</td></tr></table>\<close> parses.
\<close>

definition visible_layout :: layout where
  "visible_layout =
     \<lparr>l_display = js ''table'', l_visibility = js ''visible'', l_width = 100, l_height = 50\<rparr>"

definition tbl_late_content :: table_el where
  "tbl_late_content =
     \<lparr>t_rows = [[], [\<lparr>textContent = js ''x'', innerHTML = js ''x''\<rparr>]],
      t_layout = Some visible_layout,
      t_datepicker = False,
      t_outerHTML = js ''<table><tbody><tr></tr><tr><td>x</td></tr></tbody></table>'',
      t_outline = [], t_backgroundColor = [], t_outlineOffset = []\<rparr>"

definition page_late_content :: page where
  "page_late_content =
     \<lparr>p_tables = (\<lambda>_. tbl_late_content), p_mainTables = [0], p_iframes = [],
      p_containers = [], p_body = []\<rparr>"

text \<open>A visible one-cell table that sits inside a \<open>.ui-datepicker\<close> widget.\<close>

definition tbl_datepicker :: table_el where
  "tbl_datepicker =
     \<lparr>t_rows = [[\<lparr>textContent = js ''1'', innerHTML = js ''1''\<rparr>]],
      t_layout = Some visible_layout,
      t_datepicker = True,
      t_outerHTML = js ''<table><tbody><tr><td>1</td></tr></tbody></table>'',
      t_outline = [], t_backgroundColor = [], t_outlineOffset = []\<rparr>"

text \<open>The same table outside any widget, and a page that holds two of them.\<close>

definition tbl_plain :: table_el where
  "tbl_plain = tbl_datepicker\<lparr>t_datepicker := False\<rparr>"

definition page_two_tables :: page where
  "page_two_tables =
     \<lparr>p_tables = (\<lambda>_. tbl_plain), p_mainTables = [0, 1], p_iframes = [],
      p_containers = [[1]], p_body = []\<rparr>"

text \<open>A page without tables, and the agent as \<open>initializeTableDetection\<close> leaves it.\<close>

definition page_empty :: page where
  "page_empty =
     \<lparr>p_tables = (\<lambda>_. tbl_plain), p_mainTables = [], p_iframes = [],
      p_containers = [], p_body = []\<rparr>"

definition agent0 :: agent where
  "agent0 =
     \<lparr>foundTables = [], lastTableCount = 0, detectionAttempts = 0, backgroundReady = False\<rparr>"

text \<open>
  A clipboard without the Clipboard API whose legacy copy command succeeds, and one
  whose legacy copy command reports failure.
\<close>

definition cb_legacy :: clipboard where
  "cb_legacy = \<lparr>cb_supported = False, cb_writeText = False, cb_exec = ExecReturns True\<rparr>"

definition cb_refusing :: clipboard where
  "cb_refusing = \<lparr>cb_supported = False, cb_writeText = False, cb_exec = ExecReturns False\<rparr>"

definition plain_html :: jsstring where
  "plain_html = js ''<table><tbody><tr><td>1</td></tr></tbody></table>''"

text \<open>
  A style sheet with the single rule \<open>.user-select-none { user-select: none; }\<close>, on a
  page without \<open>style\<close> elements.
\<close>

definition rule_noselect :: css_rule where
  "rule_noselect =
     \<lparr>cr_isStyleRule = True, cr_hasStyle = True,
      cr_selectorText = js ''.user-select-none'',
      cr_decls = [(js ''user-select'', js ''none'')],
      cr_cssText = js ''.user-select-none { user-select: none; }''\<rparr>"

definition cp_noselect :: css_page where
  "cp_noselect =
     \<lparr>cp_sheets = [Some [rule_noselect]], cp_headStyles = [], cp_otherStyles = [],
      cp_listeners = []\<rparr>"

text \<open>One enabled header, and a store that still holds a rule with id 7.\<close>

definition header_xff :: header where
  "header_xff =
     \<lparr>h_id = js ''1'', h_name = js ''X-Forwarded-For'', h_value = js ''1.1.1.1'',
      h_enabled = True\<rparr>"

definition store_stale :: rule_store where
  "store_stale =
     [\<lparr>nr_id = 7, nr_priority = 1, nr_header = js ''Accept'', nr_value = js ''text/html'',
       nr_urlFilter = js ''*://*/*'', nr_resourceTypes = all_resource_types\<rparr>]"

text \<open>
  A second blocking rule, a rule that blocks nothing, and the sheet holding the three
  rules in this order.
\<close>

definition rule_noselect_webkit :: css_rule where
  "rule_noselect_webkit =
     \<lparr>cr_isStyleRule = True, cr_hasStyle = True,
      cr_selectorText = js ''body'',
      cr_decls = [(js ''-webkit-user-select'', js ''none'')],
      cr_cssText = js ''body { -webkit-user-select: none; }''\<rparr>"

definition rule_plain :: css_rule where
  "rule_plain =
     \<lparr>cr_isStyleRule = True, cr_hasStyle = True,
      cr_selectorText = js ''p'',
      cr_decls = [(js ''color'', js ''red'')],
      cr_cssText = js ''p { color: red; }''\<rparr>"

text \<open>
  The agent right after \<open>initializeTableDetection\<close> with nothing suspended, sent or
  armed, and the same with fifteen finished attempts.
\<close>

definition world0 :: world where
  "world0 = \<lparr>w_agent = agent0, w_passes = [], w_outbox = [], w_armed = []\<rparr>"




section \<open>Properties of the validator and the locator\<close>

lemma js_none_neq_table: "js ''table'' \<noteq> js ''none''" "js ''visible'' \<noteq> js ''hidden''"
  by (simp_all add: js_def)

lemma strict_accepts_late_content: "isValidTable (Some tbl_late_content) False"
  by (simp add: isValidTable_def tbl_late_content_def visible_layout_def js_def strict_scan_def
      cell_has_content_def trim_def is_js_space_def first_row_cells_ge_def)

lemma relaxed_rejects_late_content: "\<not> isValidTable (Some tbl_late_content) True"
  by (simp add: isValidTable_def tbl_late_content_def visible_layout_def js_def
      first_row_cells_ge_def)

text \<open>
  Where the first row has a cell, relaxed mode accepts whatever strict mode accepts.
\<close>

lemma strict_implies_relaxed_first_row:
  "first_row_cells_ge (t_rows t) 1 \<Longrightarrow> isValidTable (Some t) False \<Longrightarrow> isValidTable (Some t) True"
  by (cases "t_rows t") (auto simp: isValidTable_def Let_def split: option.splits if_splits)

text \<open>
  C1. Relaxed mode is meant to accept every table strict mode accepts, so that a relaxed
  scan returns at least as many descriptors as a strict one.  On the table whose first
  row is empty and whose second row has text, strict mode accepts (the content scan finds
  the text) and relaxed mode rejects (it looks at the first row only): the strict scan of
  the page returns one descriptor and the relaxed scan none.
\<close>

theorem C1_relaxed_drops_strict_table:
  "isValidTable (Some tbl_late_content) False \<and>
   \<not> isValidTable (Some tbl_late_content) True \<and>
   length (fst (findTables page_late_content False agent0)) = 1 \<and>
   length (fst (findTables page_late_content True agent0)) = 0"
  by (simp add: findTables_def collect_tables_def push_new_def page_late_content_def
      strict_accepts_late_content relaxed_rejects_late_content)

text \<open>
  C4, as the claim states it, fails: a visible one-cell table inside a date-picker widget
  is accepted in relaxed mode.
\<close>

theorem C4_datepicker_accepted_relaxed:
  "t_datepicker tbl_datepicker \<and> isValidTable (Some tbl_datepicker) True"
  by (simp add: isValidTable_def tbl_datepicker_def visible_layout_def js_def
      first_row_cells_ge_def)

text \<open>
  C4, amended.  Relaxed mode applies no denylist: a table whose layout can be read is
  accepted in relaxed mode exactly when it is neither \<open>display: none\<close> nor
  \<open>visibility: hidden\<close>, has at least one row and at least one cell in its first row, and
  measures at least 10 by 5 pixels, whether or not it lies inside a date-picker widget.
  The date-picker exclusion belongs to strict mode, which rejects every table inside
  such a widget.
\<close>

theorem C4_relaxed_no_denylist:
  "(t_layout t = Some lay \<longrightarrow>
      isValidTable (Some t) True =
        (l_display lay \<noteq> js ''none'' \<and> l_visibility lay \<noteq> js ''hidden'' \<and>
         1 \<le> length (t_rows t) \<and> first_row_cells_ge (t_rows t) 1 \<and>
         10 \<le> l_width lay \<and> 5 \<le> l_height lay)) \<and>
   (t_datepicker t \<longrightarrow> \<not> isValidTable (Some t) False)"
  by (cases "t_rows t") (auto simp: isValidTable_def Let_def split: option.splits if_splits)

theorem C4_relaxed_no_denylist_witness:
  "t_layout tbl_datepicker = Some visible_layout \<and> t_datepicker tbl_datepicker \<and>
   isValidTable (Some tbl_datepicker) True \<and> \<not> isValidTable (Some tbl_datepicker) False"
proof -
  have a: "t_layout tbl_datepicker = Some visible_layout"
    by (simp add: tbl_datepicker_def)
  have b: "t_datepicker tbl_datepicker"
    by (simp add: tbl_datepicker_def)
  have c: "l_display visible_layout \<noteq> js ''none'' \<and> l_visibility visible_layout \<noteq> js ''hidden'' \<and>
           1 \<le> length (t_rows tbl_datepicker) \<and> first_row_cells_ge (t_rows tbl_datepicker) 1 \<and>
           10 \<le> l_width visible_layout \<and> 5 \<le> l_height visible_layout"
    by (simp add: tbl_datepicker_def visible_layout_def js_def first_row_cells_ge_def)
  from a b c C4_relaxed_no_denylist [of tbl_datepicker visible_layout] show ?thesis
    by simp
qed

section \<open>Properties of the change monitor\<close>

lemma enumerate_Nil_iff: "(enumerate n xs = []) = (xs = [])"
  by (cases xs) simp_all



lemma findTables_attempts:
  "detectionAttempts (snd (findTables pg r ag)) = detectionAttempts ag"
  "lastTableCount (snd (findTables pg r ag)) = lastTableCount ag"
  "backgroundReady (snd (findTables pg r ag)) = backgroundReady ag"
  by (simp_all add: findTables_def Let_def)




text \<open>The delays of the first attempts, and the cap from the fifth attempt on.\<close>

lemma nextInterval_values:
  "nextInterval 1 = 2000" "nextInterval 2 = 3000" "nextInterval 3 = 4500"
  "nextInterval 4 = 6750" "nextInterval 5 = 10000"
  by (simp_all add: nextInterval_def eval_nat_numeral)

lemma nextInterval_cap: "5 \<le> n \<Longrightarrow> nextInterval n = 10000"
proof -
  assume "5 \<le> n"
  then have "(3 / 2 :: rat) ^ 4 \<le> (3 / 2) ^ (n - 1)"
    by (intro power_increasing) auto
  then have "(5 :: rat) \<le> (3 / 2) ^ (n - 1)"
    by (simp add: power4_eq_xxxx)
  then show ?thesis
    by (simp add: nextInterval_def)
qed

lemma findTables_page_empty: "findTables page_empty True ag = ([], ag\<lparr>foundTables := []\<rparr>)"
  by (simp add: findTables_def page_empty_def collect_tables_def push_new_def)





text \<open>A call of \<open>performTableDetection\<close> puts a message on the channel exactly when the
  count of this scan differs from \<open>lastTableCount\<close> or \<open>detectionAttempts\<close> is still 0;
  it then has written \<open>lastTableCount\<close> and waits for the answer.\<close>

lemma call_pushes_iff:
  "(w_outbox (performTableDetection pg w) \<noteq> w_outbox w) =
     (length (fst (findTables pg True (w_agent w))) \<noteq> lastTableCount (w_agent w) \<or>
      detectionAttempts (w_agent w) = 0)"
  by (auto simp: performTableDetection_def findTables_def Let_def finish_pass_def
      sendMessageWithRetry_start_def split: prod.splits)

lemma call_push_effect:
  "length (fst (findTables pg True (w_agent w))) \<noteq> lastTableCount (w_agent w) \<or>
   detectionAttempts (w_agent w) = 0 \<Longrightarrow>
   lastTableCount (w_agent (performTableDetection pg w))
     = length (fst (findTables pg True (w_agent w))) \<and>
   detectionAttempts (w_agent (performTableDetection pg w)) = detectionAttempts (w_agent w) \<and>
   w_outbox (performTableDetection pg w) =
     w_outbox w @ [if backgroundReady (w_agent w) then UpdateTables (fst (findTables pg True (w_agent w)))
                   else Ping] \<and>
   length (w_passes (performTableDetection pg w)) = length (w_passes w) + 1"
  by (auto simp: performTableDetection_def findTables_def Let_def
      sendMessageWithRetry_start_def split: prod.splits)

text \<open>
  A push that fails for good ends the pass exactly as a delivered push does: the last
  rejection and a resolution are followed by the same rest of the pass.
\<close>

lemma failed_push_does_not_abort:
  "i < length (w_passes w) \<Longrightarrow> sp_phase (w_passes w ! i) = AwaitSend 4 \<Longrightarrow>
   settled i Rejected w = settled i (Reply b) w"
  by (simp add: settled_def Let_def maxRetries_def)

text \<open>
  C7. A notification is meant to be pushed after a scan exactly when the number of
  tables differs from the last known count or the scan is the very first one.  On a
  page without tables whose background cannot be reached (every \<open>sendMessage\<close> is
  rejected), the first pass pushes and is suspended in the retry of its push; its
  first back-off wait lasts 1000 ms.  The pass armed at 500 ms by
  \<open>initializeTableDetection\<close> runs in between: it is the second scan, its count 0
  equals \<open>lastTableCount\<close>, but \<open>detectionAttempts\<close> is still 0 because the first pass
  has not come back from its \<open>await\<close>, so it pushes a second \<open>updateTables\<close>.
\<close>

theorem C7_second_scan_pushes_again:
  "backoff_ms 0 = 1000 \<and>
   run page_empty world0
     [Call Timer, Settled 0 Rejected, Settled 0 Rejected, Call Timer, Settled 1 Rejected]
     = world0\<lparr>w_passes := [\<lparr>sp_count = 0, sp_tables = [], sp_phase = Backoff 0\<rparr>,
                            \<lparr>sp_count = 0, sp_tables = [], sp_phase = AwaitSend 0\<rparr>],
              w_outbox := [Ping, UpdateTables [], Ping, UpdateTables []]\<rparr> \<and>
   lastTableCount (w_agent world0) = 0 \<and> detectionAttempts (w_agent world0) = 0"
  by (simp add: run_def step_def performTableDetection_def findTables_page_empty settled_def
      sendMessageWithRetry_start_def world0_def agent0_def backoff_ms_def maxRetries_def)

section \<open>Properties of the clipboard exporter\<close>

lemma in_range_iff: "in_range found i \<longleftrightarrow> \<not> (i < 0 \<or> int (length found) \<le> i)"
  by (auto simp: in_range_def)

lemma msgs_nonempty: "msg_invalid_id \<noteq> []" "msg2_invalid_id \<noteq> []"
  by (simp_all add: msg_invalid_id_def msg2_invalid_id_def)

text \<open>
  C5. For a table id below 0 or not below the number of found tables, the single-table
  export of either content script answers \<open>{ success: false }\<close> with a non-empty error
  text, as a returned value, and performs no operation on the body of the document.
\<close>

theorem C5_invalid_id_is_error_without_effect:
  "tableId < 0 \<or> int (length found) \<le> tableId \<Longrightarrow>
   copySingleTableToClipboard pg cb found tableId
     = (\<lparr>r_success = False, r_error = Some msg_invalid_id\<rparr>, []) \<and>
   msg_invalid_id \<noteq> [] \<and>
   copySingleTableToClipboard2 pg cb found tableId
     = (\<lparr>r_success = False, r_error = Some msg2_invalid_id\<rparr>, []) \<and>
   msg2_invalid_id \<noteq> []"
  by (auto simp: copySingleTableToClipboard_def copySingleTableToClipboard2_def failed_def
      msgs_nonempty)

theorem C5_invalid_id_is_error_without_effect_witness:
  "int (length [0, 1 :: node]) \<le> 2 \<and>
   fst (copySingleTableToClipboard page_two_tables cb_legacy [0, 1] 2)
     = \<lparr>r_success = False, r_error = Some msg_invalid_id\<rparr> \<and>
   snd (copySingleTableToClipboard page_two_tables cb_legacy [0, 1] 2) = [] \<and>
   snd (copySingleTableToClipboard2 page_two_tables cb_legacy [0, 1] (- 1)) = []"
proof -
  have a: "(2 :: int) < 0 \<or> int (length [0, 1 :: node]) \<le> 2"
    by simp
  have b: "(- 1 :: int) < 0 \<or> int (length [0, 1 :: node]) \<le> - 1"
    by simp
  from C5_invalid_id_is_error_without_effect [OF a, of page_two_tables cb_legacy]
       C5_invalid_id_is_error_without_effect [OF b, of page_two_tables cb_legacy]
  show ?thesis
    by simp
qed

text \<open>The payload of the basic script is the labelled concatenation.\<close>

lemma join_labelled:
  "join [10] (map (\<lambda>(index, n). table_text pg index n) (enumerate k found))
     = labelled_from (Suc k) (map (\<lambda>n. t_outerHTML (p_tables pg n)) found)"
  by (induction found arbitrary: k rule: induct_list012) (simp_all add: table_text_def)

lemma str_nat_1: "str_nat 1 = [49]" "str_nat 2 = [50]"
  by simp_all

text \<open>
  C8, as the claim states it, fails on the enhanced content script: for two found tables
  the payload written to the textarea is the two markups with a blank line between
  them, and the text \<open>===\<close> of an index label occurs nowhere in it.
\<close>

theorem C8_enhanced_payload_unlabelled:
  "copyTablesToClipboard page_two_tables cb_legacy [0, 1]
     = (succeeded,
        [AppendChild (TextArea (plain_html @ [10, 10] @ plain_html)),
         RemoveChild (TextArea (plain_html @ [10, 10] @ plain_html))]) \<and>
   \<not> str_includes (plain_html @ [10, 10] @ plain_html) (js ''==='')"
proof -
  have "tables_html page_two_tables [0, 1] = plain_html @ [10, 10] @ plain_html"
    by (simp add: tables_html_def page_two_tables_def tbl_plain_def tbl_datepicker_def
        plain_html_def)
  moreover have "\<not> str_includes (plain_html @ [10, 10] @ plain_html) (js ''==='')"
    by (simp add: plain_html_def js_def)
  ultimately show ?thesis
    by (simp add: copyTablesToClipboard_def write_enhanced_def cb_legacy_def)
qed

text \<open>
  C8, amended.  For every non-empty candidate set, the all-tables export of the basic
  content script writes the concatenation of the tables' markup, each prefixed by its
  index label (counting from 1) and followed by a line feed, with a line feed between
  two tables; the all-tables export of the enhanced content script writes the tables'
  markup alone, separated by blank lines, without index labels.
\<close>

theorem C8_payloads:
  "found \<noteq> [] \<Longrightarrow>
   copyTablesToClipboard2 pg cb found
     = write_basic cb (labelled_from 1 (map (\<lambda>n. t_outerHTML (p_tables pg n)) found)) \<and>
   copyTablesToClipboard pg cb found
     = write_enhanced cb (join [10, 10] (map (\<lambda>n. t_outerHTML (p_tables pg n)) found))"
  by (simp add: copyTablesToClipboard2_def copyTablesToClipboard_def tables_text_def
      tables_html_def join_labelled)

theorem C8_payloads_witness:
  "[0, 1 :: node] \<noteq> [] \<and>
   copyTablesToClipboard2 page_two_tables cb_legacy [0, 1]
     = (succeeded,
        [AppendChild (TextArea (table_label 1 @ plain_html @ [10, 10]
                                  @ table_label 2 @ plain_html @ [10])),
         RemoveChild (TextArea (table_label 1 @ plain_html @ [10, 10]
                                  @ table_label 2 @ plain_html @ [10]))])"
proof -
  have a: "[0, 1 :: node] \<noteq> []"
    by simp
  have b: "map (\<lambda>n. t_outerHTML (p_tables page_two_tables n)) [0, 1] = [plain_html, plain_html]"
    by (simp add: page_two_tables_def tbl_plain_def tbl_datepicker_def plain_html_def)
  have c: "labelled_from 1 [plain_html, plain_html]
             = table_label 1 @ plain_html @ [10, 10] @ table_label 2 @ plain_html @ [10]"
    by (simp add: numeral_2_eq_2)
  from C8_payloads [OF a, of page_two_tables cb_legacy] show ?thesis
    by (simp only: b c) (simp add: write_basic_def cb_legacy_def succeeded_def)
qed

text \<open>The outcome of the write depends on the clipboard alone.\<close>

lemma write_enhanced_success: "r_success (fst (write_enhanced cb h)) = clipboard_works cb"
  by (cases "cb_exec cb")
     (auto simp: write_enhanced_def clipboard_works_def succeeded_def failed_def Let_def)

lemma write_basic_success: "r_success (fst (write_basic cb h)) = clipboard_works cb"
  by (cases "cb_exec cb")
     (auto simp: write_basic_def clipboard_works_def succeeded_def failed_def)

lemma table_text_nonempty: "table_text pg i n \<noteq> []"
  by (simp add: table_text_def table_label_def)

lemma join_nonempty: "xs \<noteq> [] \<Longrightarrow> \<forall>x\<in>set xs. x \<noteq> [] \<Longrightarrow> join sep xs \<noteq> []"
  by (induction xs rule: induct_list012) auto

lemma kept_valid:
  "map the (filter (\<lambda>x. x \<noteq> None \<and> x \<noteq> Some [])
      (map (\<lambda>tableId. if tableId < 0 \<or> tableId \<ge> int (length found) then None
                       else Some (table_text pg (nat tableId) (found ! nat tableId))) ids))
    = map (\<lambda>i. table_text pg (nat i) (found ! nat i)) (filter (in_range found) ids)"
  by (induction ids) (auto simp: in_range_def table_text_nonempty)

lemma selected_enhanced:
  "copySelectedTablesToClipboard pg cb found ids =
   (if ids = [] then (failed msg_none_selected, [])
    else if filter (in_range found) ids = [] then (failed msg_selected_invalid, [])
    else write_enhanced cb
           (tables_html pg (map (\<lambda>i. found ! nat i) (filter (in_range found) ids))))"
  by (simp add: copySelectedTablesToClipboard_def Let_def)

lemma selected_basic:
  "copySelectedTablesToClipboard2 pg cb found ids =
   (if ids = [] then (failed msg2_none_selected, [])
    else if filter (in_range found) ids = [] then (failed msg2_no_valid, [])
    else write_basic cb
           (join [10] (map (\<lambda>i. table_text pg (nat i) (found ! nat i))
                         (filter (in_range found) ids))))"
proof -
  have "filter (in_range found) ids \<noteq> [] \<Longrightarrow>
     join [10] (map (\<lambda>i. table_text pg (nat i) (found ! nat i))
                  (filter (in_range found) ids)) \<noteq> []"
    by (rule join_nonempty) (auto simp: table_text_nonempty)
  then show ?thesis
    unfolding copySelectedTablesToClipboard2_def Let_def kept_valid
    by auto
qed

text \<open>
  C9, as the claim states it, fails: a selection holding a valid id still gets an error
  result when the Clipboard API is unavailable and the legacy copy command reports
  failure.
\<close>

theorem C9_error_with_valid_id:
  "in_range [0, 1] 0 \<and> \<not> in_range [0, 1] 5 \<and>
   fst (copySelectedTablesToClipboard page_two_tables cb_refusing [0, 1] [0, 5])
     = \<lparr>r_success = False, r_error = Some msg_copy_command_failed\<rparr> \<and>
   fst (copySelectedTablesToClipboard2 page_two_tables cb_refusing [0, 1] [0, 5])
     = \<lparr>r_success = False, r_error = Some msg2_exec_failed\<rparr>"
  by (simp add: selected_enhanced selected_basic in_range_def write_enhanced_def
      write_basic_def cb_refusing_def failed_def)

text \<open>
  C9, amended.  In both content scripts the ids out of range are dropped silently: with
  at least one id in range, the export answers as it does for the in-range ids alone,
  and that answer is a success exactly when the clipboard write goes through.  An
  error about the selection itself is returned only for the empty list and for a list
  whose ids are all out of range; the only other error result is that of a failed
  clipboard write.
\<close>

theorem C9_out_of_range_ids_dropped:
  "(ids = [] \<longrightarrow>
      copySelectedTablesToClipboard pg cb found ids = (failed msg_none_selected, []) \<and>
      copySelectedTablesToClipboard2 pg cb found ids = (failed msg2_none_selected, [])) \<and>
   (ids \<noteq> [] \<and> filter (in_range found) ids = [] \<longrightarrow>
      copySelectedTablesToClipboard pg cb found ids = (failed msg_selected_invalid, []) \<and>
      copySelectedTablesToClipboard2 pg cb found ids = (failed msg2_no_valid, [])) \<and>
   (filter (in_range found) ids \<noteq> [] \<longrightarrow>
      copySelectedTablesToClipboard pg cb found ids
        = copySelectedTablesToClipboard pg cb found (filter (in_range found) ids) \<and>
      copySelectedTablesToClipboard2 pg cb found ids
        = copySelectedTablesToClipboard2 pg cb found (filter (in_range found) ids) \<and>
      r_success (fst (copySelectedTablesToClipboard pg cb found ids)) = clipboard_works cb \<and>
      r_success (fst (copySelectedTablesToClipboard2 pg cb found ids)) = clipboard_works cb)"
proof -
  have "filter (in_range found) ids \<noteq> [] \<Longrightarrow> ids \<noteq> []"
    by auto
  then show ?thesis
    by (simp add: selected_enhanced selected_basic write_enhanced_success write_basic_success)
qed

theorem C9_out_of_range_ids_dropped_witness:
  "filter (in_range [0, 1]) [0, 5] = [0] \<and> clipboard_works cb_legacy \<and>
   copySelectedTablesToClipboard page_two_tables cb_legacy [0, 1] [0, 5]
     = copySelectedTablesToClipboard page_two_tables cb_legacy [0, 1] [0] \<and>
   r_success (fst (copySelectedTablesToClipboard page_two_tables cb_legacy [0, 1] [0, 5])) \<and>
   r_success (fst (copySelectedTablesToClipboard2 page_two_tables cb_legacy [0, 1] [0, 5])) \<and>
   copySelectedTablesToClipboard page_two_tables cb_legacy [0, 1] [5, - 1]
     = (failed msg_selected_invalid, []) \<and>
   copySelectedTablesToClipboard2 page_two_tables cb_legacy [0, 1] []
     = (failed msg2_none_selected, [])"
proof -
  have a: "filter (in_range [0, 1]) [0, 5] = [0]"
    by (simp add: in_range_def)
  have b: "clipboard_works cb_legacy"
    by (simp add: clipboard_works_def cb_legacy_def)
  have c: "[5, - 1] \<noteq> ([] :: int list) \<and> filter (in_range [0, 1]) [5, - 1] = []"
    by (simp add: in_range_def)
  have d: "filter (in_range [0, 1]) [0] = [0]"
    by (simp add: in_range_def)
  from a b c d
    C9_out_of_range_ids_dropped [of "[0]" page_two_tables cb_legacy "[0, 1]"]
    C9_out_of_range_ids_dropped [of "[0, 5]" page_two_tables cb_legacy "[0, 1]"]
    C9_out_of_range_ids_dropped [of "[5, - 1]" page_two_tables cb_legacy "[0, 1]"]
    C9_out_of_range_ids_dropped [of "[]" page_two_tables cb_legacy "[0, 1]"]
  show ?thesis
    by simp
qed

section \<open>Properties of the highlight handler\<close>

lemma highlight_out_of_range:
  "tableId < 0 \<or> int (length found) \<le> tableId \<Longrightarrow>
   highlightTable pg found tableId = (clearHighlight pg found, None)"
  by (auto simp: highlightTable_def Let_def)

lemma highlight2_out_of_range:
  "tableId < 0 \<or> int (length found) \<le> tableId \<Longrightarrow>
   highlightTable2 pg found prev tableId = clearHighlight2 pg prev"
  by (auto simp: highlightTable2_def split: prod.splits)

text \<open>
  C10, read as saying that a request without \<open>tableId\<close> is answered differently, fails:
  both handlers answer such a request with \<open>{ success: true }\<close> as well.
\<close>

theorem C10_absent_id_answered_success:
  "fst (on_highlightTable page_two_tables [0, 1] None)
     = \<lparr>r_success = True, r_error = None\<rparr> \<and>
   fst (on_highlightTable2 page_two_tables [0, 1] None None)
     = \<lparr>r_success = True, r_error = None\<rparr> \<and>
   fst (on_highlightTable page_two_tables [0, 1] None)
     = fst (on_highlightTable page_two_tables [0, 1] (Some 0))"
  by (simp add: on_highlightTable_def on_highlightTable2_def succeeded_def Let_def)

text \<open>
  C10, amended.  The \<open>highlightTable\<close> handler of either content script answers
  \<open>{ success: true }\<close> to every request: for every defined \<open>tableId\<close>, in range or
  not, and also when \<open>tableId\<close> is absent.  For an id outside the candidate range no
  table is highlighted and nothing is scrolled to: the handler only clears the
  previous highlight.  Without \<open>tableId\<close> the page is left untouched.
\<close>

theorem C10_highlight_always_success:
  "fst (on_highlightTable pg found tid) = \<lparr>r_success = True, r_error = None\<rparr> \<and>
   fst (on_highlightTable2 pg found prev tid) = \<lparr>r_success = True, r_error = None\<rparr> \<and>
   (tableId < 0 \<or> int (length found) \<le> tableId \<longrightarrow>
      snd (on_highlightTable pg found (Some tableId)) = (clearHighlight pg found, None) \<and>
      (\<forall>n\<in>set found. t_outline (p_tables (clearHighlight pg found) n) = [] \<and>
                       t_backgroundColor (p_tables (clearHighlight pg found) n) = []) \<and>
      snd (on_highlightTable2 pg found prev (Some tableId)) = clearHighlight2 pg prev \<and>
      snd (clearHighlight2 pg prev) = None) \<and>
   snd (on_highlightTable pg found None) = (pg, None) \<and>
   snd (on_highlightTable2 pg found prev None) = (pg, prev)"
  by (auto simp: on_highlightTable_def on_highlightTable2_def succeeded_def Let_def
      highlight_out_of_range highlight2_out_of_range clearHighlight_def clearHighlight2_def
      split: option.splits)

theorem C10_highlight_always_success_witness:
  "int (length [0, 1 :: node]) \<le> 2 \<and>
   on_highlightTable page_two_tables [0, 1] (Some 2)
     = (\<lparr>r_success = True, r_error = None\<rparr>, clearHighlight page_two_tables [0, 1], None) \<and>
   t_outline (p_tables (clearHighlight page_two_tables [0, 1]) 1) = [] \<and>
   on_highlightTable2 page_two_tables [0, 1] (Some 1) (Some 2)
     = (\<lparr>r_success = True, r_error = None\<rparr>, clearHighlight2 page_two_tables (Some 1))"
proof -
  have a: "(2 :: int) < 0 \<or> int (length [0, 1 :: node]) \<le> 2"
    by simp
  have b: "(1 :: node) \<in> set [0, 1]"
    by simp
  from a b
    C10_highlight_always_success [of page_two_tables "[0, 1]" "Some 2" "Some 1" 2]
  show ?thesis
    by (simp add: prod_eq_iff)
qed

section \<open>Properties of the header rule manager\<close>

lemma clear_empties: "clearNetworkRules st = (True, [])"
proof -
  have "filter (\<lambda>r. nr_id r \<notin> set (map nr_id st)) st = []"
    by (induction st) auto
  then show ?thesis
    by (cases st)
       (simp_all add: clearNetworkRules_def getDynamicRules_def updateDynamicRules_def Let_def)
qed

lemma nr_id_make_rule: "nr_id \<circ> (\<lambda>(index, h). make_rule index h) = Suc \<circ> fst"
  by (auto simp: make_rule_def fun_eq_iff)

lemma ids_rules_of: "map nr_id (rules_of hs) = [1..<Suc (length hs)]"
proof -
  have "map nr_id (rules_of hs) = map Suc (map fst (enumerate 0 hs))"
    by (simp only: rules_of_def map_map nr_id_make_rule)
  also have "\<dots> = map Suc [0..<length hs]"
    by (simp only: map_fst_enumerate add_0)
  also have "\<dots> = [1..<Suc (length hs)]"
    by (simp only: map_Suc_upt One_nat_def)
  finally show ?thesis .
qed

lemma add_to_empty: "updateDynamicRules [] (rules_of hs) [] = (True, rules_of hs)"
proof -
  have "distinct (map nr_id (rules_of hs))"
    by (simp only: ids_rules_of distinct_upt)
  moreover have "list_all (\<lambda>r. 1 \<le> nr_id r) (rules_of hs)"
    by (auto simp: rules_of_def list_all_iff make_rule_def in_set_enumerate_eq)
  ultimately show ?thesis
    by (simp add: updateDynamicRules_def)
qed

lemma updateNetworkRules_eq: "updateNetworkRules hs st = (True, rules_of hs)"
proof (cases "hs = []")
  case True
  then show ?thesis
    by (simp add: updateNetworkRules_def clear_empties rules_of_def)
next
  case False
  then show ?thesis
    using add_to_empty [of hs]
    by (simp add: updateNetworkRules_def clear_empties rules_of_def)
qed

lemma updateNetworkRules1_eq: "updateNetworkRules1 hs st = rules_of hs"
proof (cases "hs = []")
  case True
  then show ?thesis
    by (simp add: updateNetworkRules1_def clear_empties rules_of_def)
next
  case False
  then show ?thesis
    using add_to_empty [of hs]
    by (simp add: updateNetworkRules1_def clear_empties rules_of_def)
qed

lemma nth_rules_of: "i < length hs \<Longrightarrow> rules_of hs ! i = make_rule i (hs ! i)"
  by (simp add: rules_of_def nth_enumerate_eq)

text \<open>
  C3. Whatever rules are installed, \<open>applyHeaders\<close> first removes them all and then
  installs one rule per header of the list, with the ids \<open>1, \<dots>, N\<close> in the order of
  the list, rule \<open>i + 1\<close> setting header \<open>i\<close>.  Applying the same list again yields the
  same installed rules.  Both background scripts agree.
\<close>

theorem C3_applyHeaders_idempotent:
  "clearNetworkRules st = (True, []) \<and>
   applyHeaders hs st = (True, snd (applyHeaders hs st)) \<and>
   map nr_id (snd (applyHeaders hs st)) = [1..<Suc (length hs)] \<and>
   (\<forall>i<length hs. nr_header (snd (applyHeaders hs st) ! i) = h_name (hs ! i) \<and>
                    nr_value (snd (applyHeaders hs st) ! i) = h_value (hs ! i)) \<and>
   applyHeaders hs (snd (applyHeaders hs st)) = applyHeaders hs st \<and>
   applyHeaders1 hs st = applyHeaders hs st \<and>
   applyHeaders1 hs (snd (applyHeaders1 hs st)) = applyHeaders1 hs st"
proof -
  have a: "applyHeaders hs s = (True, rules_of hs)" for s
    by (simp add: applyHeaders_def updateNetworkRules_eq)
  have b: "applyHeaders1 hs s = (True, rules_of hs)" for s
    by (simp add: applyHeaders1_def updateNetworkRules1_eq)
  have c: "\<forall>i<length hs. nr_header (rules_of hs ! i) = h_name (hs ! i) \<and>
                    nr_value (rules_of hs ! i) = h_value (hs ! i)"
    by (simp add: nth_rules_of make_rule_def)
  show ?thesis
    unfolding a b snd_conv using c ids_rules_of [of hs] clear_empties [of st] by simp
qed

theorem C3_applyHeaders_idempotent_witness:
  "(0 :: nat) < length [header_xff] \<and>
   map nr_id (snd (applyHeaders [header_xff] store_stale)) = [1] \<and>
   nr_header (snd (applyHeaders [header_xff] store_stale) ! 0) = js ''X-Forwarded-For'' \<and>
   nr_value (snd (applyHeaders [header_xff] store_stale) ! 0) = js ''1.1.1.1'' \<and>
   applyHeaders [header_xff] (snd (applyHeaders [header_xff] store_stale))
     = applyHeaders [header_xff] store_stale"
proof -
  have a: "(0 :: nat) < length [header_xff]"
    by simp
  from a C3_applyHeaders_idempotent [of store_stale "[header_xff]"] show ?thesis
    by (simp add: header_xff_def)
qed

section \<open>Properties of the copy-protection toggler\<close>

lemma sig_allow_copy: "str_includes allow_copy_text (js ''user-select: auto'')"
  by (simp add: allow_copy_text_def js_def)

lemma sig_override: "str_includes override_text (js ''user-select: text !important'')"
  by (simp add: override_text_def js_def)

lemma sig_nonempty: "str_includes t (js ''user-select: auto'') \<Longrightarrow> t \<noteq> []"
  by (cases t) (simp_all add: js_def)

text \<open>The enable path of the basic script changes no rule of any sheet.\<close>

lemma restore_rules_noop: "restore_rules si ri rules orig = rules"
  by (induction rules arbitrary: ri) (simp_all add: set_cssText_def split: option.splits)

lemma restore_sheets_noop: "restore_sheets si shs orig = shs"
proof (induction shs arbitrary: si)
  case Nil
  then show ?case by simp
next
  case (Cons sh shs)
  then show ?case
    by (cases sh) (simp_all add: restore_rules_noop)
qed

text \<open>
  In both scripts the second toggle removes the injected override style: after two
  toggles, starting with protection on, the \<open>style\<close> elements of the head are the
  original ones without those that contain the signature.
\<close>

lemma toggle_twice_styles:
  "cp_headStyles (fst (fst (snd (toggleCopyProtection2
                                   (snd (toggleCopyProtection2 ((cp, orig), False)))))))
     = filter (\<lambda>t. \<not> str_includes t (js ''user-select: auto'')) (cp_headStyles cp)"
  "cp_headStyles (fst (snd (toggleCopyProtection (snd (toggleCopyProtection (cp, False))))))
     = filter (\<lambda>t. \<not> str_includes t (js ''user-select: text !important''))
         (cp_headStyles cp)"
proof -
  have f: "(\<lambda>t. t = [] \<or> \<not> str_includes t (js ''user-select: auto''))
             = (\<lambda>t. \<not> str_includes t (js ''user-select: auto''))"
    using sig_nonempty by auto
  have g: "allow_copy_text \<noteq> []"
    using sig_nonempty [OF sig_allow_copy] .
  show "cp_headStyles (fst (fst (snd (toggleCopyProtection2
                                   (snd (toggleCopyProtection2 ((cp, orig), False)))))))
     = filter (\<lambda>t. \<not> str_includes t (js ''user-select: auto'')) (cp_headStyles cp)"
    by (simp add: toggleCopyProtection2_def disableCopyProtection2_def
        enableCopyProtection2_def f g sig_allow_copy split: prod.splits)
  show "cp_headStyles (fst (snd (toggleCopyProtection (snd (toggleCopyProtection (cp, False))))))
     = filter (\<lambda>t. \<not> str_includes t (js ''user-select: text !important''))
         (cp_headStyles cp)"
    by (simp add: toggleCopyProtection_def disableCopyProtection_def
        enableCopyProtection_def sig_override)
qed

text \<open>
  The enhanced disable path deletes from the live sheet by the index a rule has in the
  snapshot.  After the first deletion the indices have moved: of two blocking rules
  followed by a harmless one, the first blocking rule and the harmless rule are
  deleted and the second blocking rule stays.
\<close>

lemma delete_blocking_stale_index:
  "delete_blocking 0 [rule_noselect, rule_noselect_webkit, rule_plain]
     [rule_noselect, rule_noselect_webkit, rule_plain] = [rule_noselect_webkit]"
proof -
  have "blocks_selection rule_noselect" "blocks_selection rule_noselect_webkit"
       "\<not> blocks_selection rule_plain"
    by (simp_all add: blocks_selection_def rule_noselect_def rule_noselect_webkit_def
        rule_plain_def decl_value_def js_def)
  then show ?thesis
    by simp
qed

lemma neutralize_noselect:
  "neutralize rule_noselect =
     rule_noselect\<lparr>cr_decls := [], cr_cssText := js ''.user-select-none { }''\<rparr>"
  by (simp add: neutralize_def removeProperty_def rule_noselect_def serialize_def js_def)

lemma basic_toggle_once:
  "toggleCopyProtection2 ((cp_noselect, Map.empty), False) =
     (\<lparr>tr_success = True, tr_copyEnabled = True\<rparr>,
      (cp_noselect\<lparr>cp_sheets := [Some [neutralize rule_noselect]],
                   cp_headStyles := [allow_copy_text],
                   cp_listeners := blocked_events @ [js ''contextmenu'', js ''selectstart'']\<rparr>,
       Map.empty((0, 0) \<mapsto> cr_cssText rule_noselect)),
      True)"
proof -
  have "selector_matches rule_noselect"
    by (simp add: selector_matches_def rule_noselect_def js_def)
  then show ?thesis
    by (simp add: toggleCopyProtection2_def disableCopyProtection2_def cp_noselect_def)
qed

lemma basic_toggle_twice:
  "toggleCopyProtection2 (snd (toggleCopyProtection2 ((cp_noselect, Map.empty), False))) =
     (\<lparr>tr_success = True, tr_copyEnabled = False\<rparr>,
      (cp_noselect\<lparr>cp_sheets := [Some [neutralize rule_noselect]],
                   cp_headStyles := [],
                   cp_listeners := blocked_events @ [js ''contextmenu'', js ''selectstart'']\<rparr>,
       Map.empty),
      False)"
  unfolding basic_toggle_once
  using sig_nonempty [OF sig_allow_copy]
  by (simp add: toggleCopyProtection2_def enableCopyProtection2_def restore_sheets_noop
      sig_allow_copy cp_noselect_def)

lemma enhanced_toggle_twice:
  "toggleCopyProtection (snd (toggleCopyProtection (cp_noselect, False))) =
     (\<lparr>tr_success = True, tr_copyEnabled = False\<rparr>,
      cp_noselect\<lparr>cp_sheets := [Some []]\<rparr>,
      False)"
proof -
  have "blocks_selection rule_noselect"
    by (simp add: blocks_selection_def rule_noselect_def decl_value_def js_def)
  then show ?thesis
    by (simp add: toggleCopyProtection_def disableCopyProtection_def enableCopyProtection_def
        cp_noselect_def sig_override)
qed

text \<open>
  C2. The toggle is meant to be reversible: two toggles should give every style rule
  the disable path modified its original \<open>cssText\<close> back and leave no injected
  override style.  On a page whose only sheet holds the rule
  \<open>.user-select-none { user-select: none; }\<close> the override style is gone after two
  toggles, but the rule is not restored by either content script.  The basic script
  saved the text and executes \<open>rule.cssText = originalStyle\<close>, an assignment that
  does nothing: the rule still reads \<open>.user-select-none { }\<close>, its declaration is
  still removed, and the save-table is empty.  The enhanced script deleted the rule
  and never saved it: the sheet is empty.
\<close>

theorem C2_toggle_twice_restores_no_rule:
  "map (map_option (map cr_cssText)) (cp_sheets cp_noselect)
     = [Some [js ''.user-select-none { user-select: none; }'']] \<and>
   map (map_option (map cr_decls)) (cp_sheets cp_noselect)
     = [Some [[(js ''user-select'', js ''none'')]]] \<and>
   toggleCopyProtection2 (snd (toggleCopyProtection2 ((cp_noselect, Map.empty), False)))
     = (\<lparr>tr_success = True, tr_copyEnabled = False\<rparr>,
        (cp_noselect
           \<lparr>cp_sheets := [Some [rule_noselect\<lparr>cr_decls := [],
                                    cr_cssText := js ''.user-select-none { }''\<rparr>]],
            cp_headStyles := [],
            cp_listeners := blocked_events @ [js ''contextmenu'', js ''selectstart'']\<rparr>,
         Map.empty),
        False) \<and>
   toggleCopyProtection (snd (toggleCopyProtection (cp_noselect, False)))
     = (\<lparr>tr_success = True, tr_copyEnabled = False\<rparr>,
        cp_noselect\<lparr>cp_sheets := [Some []]\<rparr>,
        False)"
  unfolding basic_toggle_twice enhanced_toggle_twice neutralize_noselect
  by (simp add: cp_noselect_def rule_noselect_def)

end
